theory Spec2Isabelle
  imports Main
begin

section \<open>Strings\<close>

text \<open>
  Source strings are modelled as \<^typ>\<open>string\<close> (a list of 8-bit characters). The
  helpers below follow the JavaScript string methods the sources call, on ASCII text:
  \<open>toLowerCase\<close> folds the letters A-Z only, and whitespace is the ASCII whitespace.
\<close>

definition lowerChar :: "char \<Rightarrow> char" where
  "lowerChar c =
     (case map_of (zip ''ABCDEFGHIJKLMNOPQRSTUVWXYZ'' ''abcdefghijklmnopqrstuvwxyz'') c of
        Some l \<Rightarrow> l
      | None \<Rightarrow> c)"

definition toLowerCase :: "string \<Rightarrow> string" where
  "toLowerCase s = map lowerChar s"

text \<open>\<open>s.startsWith(t)\<close>.\<close>

fun startsWith :: "string \<Rightarrow> string \<Rightarrow> bool" where
  "startsWith s [] = True"
| "startsWith [] (y # ys) = False"
| "startsWith (x # xs) (y # ys) = (x = y \<and> startsWith xs ys)"

text \<open>\<open>s.includes(t)\<close>: \<open>t\<close> occurs in \<open>s\<close> as a contiguous substring.\<close>

fun includesStr :: "string \<Rightarrow> string \<Rightarrow> bool" where
  "includesStr [] t = (t = [])"
| "includesStr (x # xs) t = (startsWith (x # xs) t \<or> includesStr xs t)"

text \<open>
  \<open>s.split(c)\<close> for a one-character separator: every piece between separators, empty
  pieces included; the empty string splits into one empty piece.
\<close>

fun splitOn :: "char \<Rightarrow> string \<Rightarrow> string list" where
  "splitOn c [] = [[]]"
| "splitOn c (x # xs) =
     (if x = c then [] # splitOn c xs
      else (case splitOn c xs of
              [] \<Rightarrow> [[x]]
            | p # ps \<Rightarrow> (x # p) # ps))"

text \<open>\<open>xs[i]\<close> on an array: \<open>undefined\<close> out of range, here \<open>None\<close>.\<close>

fun elemAt :: "'a list \<Rightarrow> nat \<Rightarrow> 'a option" where
  "elemAt [] i = None"
| "elemAt (x # xs) 0 = Some x"
| "elemAt (x # xs) (Suc i) = elemAt xs i"

text \<open>\<open>parts.join(sep)\<close>.\<close>

fun joinWith :: "string \<Rightarrow> string list \<Rightarrow> string" where
  "joinWith sep [] = []"
| "joinWith sep [p] = p"
| "joinWith sep (p # q # ps) = p @ sep @ joinWith sep (q # ps)"

section \<open>External-search links (contacts/linkedin.ts)\<close>

text \<open>
  \<open>new URLSearchParams(...).toString()\<close> is the form-urlencoded serialiser of the
  runtime: a byte of the set \<open>A-Z a-z 0-9 * - . _\<close> stands for itself, a space becomes
  \<open>+\<close>, any other byte becomes \<open>%\<close> and two upper-case hexadecimal digits; pairs are
  written \<open>key=value\<close> and joined by \<open>&\<close>.
\<close>

definition hexDigit :: "nat \<Rightarrow> char" where
  "hexDigit n = (case elemAt ''0123456789ABCDEF'' n of Some d \<Rightarrow> d | None \<Rightarrow> CHR ''0'')"

definition formEncodeChar :: "char \<Rightarrow> string" where
  "formEncodeChar c =
     (if c \<in> set ''ABCDEFGHIJKLMNOPQRSTUVWXYZabcdefghijklmnopqrstuvwxyz0123456789*-._''
      then [c]
      else if c = CHR '' '' then ''+''
      else [CHR ''%'', hexDigit (of_char c div 16), hexDigit (of_char c mod 16)])"

definition formEncode :: "string \<Rightarrow> string" where
  "formEncode s = concat (map formEncodeChar s)"

definition urlSearchParams :: "(string \<times> string) list \<Rightarrow> string" where
  "urlSearchParams ps = joinWith ''&'' (map (\<lambda>(k, v). formEncode k @ ''='' @ formEncode v) ps)"

definition REGIONS :: "(string \<times> string) list" where
  "REGIONS =
     [(''denmark'', ''Denmark''),
      (''nordic'', ''Denmark OR Sweden OR Norway OR Finland''),
      (''europe'', ''Europe''),
      (''global'', '''')]"

text \<open>
  \<open>generateLinkedInSearchUrl(companyName, title?, region?)\<close>. An absent argument is
  \<open>None\<close>; an empty title or region is falsy in the source and is treated as absent. The
  region table is read for its own four keys (a region naming an inherited property of
  the table object is not modelled).
\<close>

definition generateLinkedInSearchUrl :: "string \<Rightarrow> string option \<Rightarrow> string option \<Rightarrow> string" where
  "generateLinkedInSearchUrl companyName title region =
     (let keywords = (case title of
                        None \<Rightarrow> []
                      | Some t \<Rightarrow> (if t = [] then [] else [t])) @ [companyName];
          regionFilter = (case region of
                            None \<Rightarrow> []
                          | Some r \<Rightarrow>
                              (if r = [] then []
                               else (case map_of REGIONS (toLowerCase r) of
                                       None \<Rightarrow> []
                                     | Some f \<Rightarrow> f)));
          params = [(''keywords'', joinWith '' '' keywords), (''origin'', ''GLOBAL_SEARCH_HEADER'')]
                   @ (if regionFilter = [] then [] else [(''geoUrn'', regionFilter)])
      in ''https://www.linkedin.com/search/results/people/?'' @ urlSearchParams params)"

section \<open>Stored contacts and people\<close>

datatype PathType = Email | Form | Agency | Press

record ExtractedContact =
  pathType :: PathType
  cvalue :: string
  emailType :: "string option"
  confidenceScore :: int
  sourceUrl :: string

record ExtractedPerson =
  name :: string
  jobTitle :: "string option"
  department :: "string option"
  personSourceUrl :: string
  linkedinSearchUrl :: string

section \<open>Path selection (ranking/pathSelector.ts)\<close>

datatype SelectedType = NamedEmail | Inbox | AgencyPath | FormPath | Linkedin

record SelectedPath =
  ptype :: SelectedType
  pvalue :: string
  personName :: "string option"
  personTitle :: "string option"
  score :: int
  pathSourceUrl :: "string option"

record PathSelection =
  primary :: SelectedPath
  backup :: "SelectedPath option"
  linkedinUrls :: "(string \<times> string) list"

text \<open>
  The predicate of \<open>contacts.find\<close> in the first loop: an email contact whose local part
  (lower-cased text before the first \<open>@\<close>) contains, or is contained in, one of the
  space-separated pieces of the lower-cased person name.
\<close>

definition emailPrefix :: "ExtractedContact \<Rightarrow> string" where
  "emailPrefix c =
     toLowerCase (case elemAt (splitOn CHR ''@'' (cvalue c)) 0 of Some p \<Rightarrow> p | None \<Rightarrow> [])"

definition nameParts :: "ExtractedPerson \<Rightarrow> string list" where
  "nameParts person = splitOn CHR '' '' (toLowerCase (name person))"

definition belongsTo :: "ExtractedPerson \<Rightarrow> ExtractedContact \<Rightarrow> bool" where
  "belongsTo person c =
     (pathType c = Email \<and>
      list_ex (\<lambda>part. includesStr (emailPrefix c) part \<or> includesStr part (emailPrefix c))
        (nameParts person))"

text \<open>\<open>person.jobTitle || undefined\<close>: a missing or empty title is left out.\<close>

definition titleOrUndefined :: "string option \<Rightarrow> string option" where
  "titleOrUndefined t = (case t of None \<Rightarrow> None | Some s \<Rightarrow> (if s = [] then None else Some s))"

definition namedEmailPath :: "ExtractedPerson \<Rightarrow> ExtractedContact \<Rightarrow> SelectedPath" where
  "namedEmailPath person c =
     \<lparr>ptype = NamedEmail, pvalue = cvalue c, personName = Some (name person),
      personTitle = titleOrUndefined (jobTitle person), score = 100,
      pathSourceUrl = Some (sourceUrl c)\<rparr>"

text \<open>Loop 1: one named candidate per person that has a matching email contact.\<close>

fun addNamedEmails :: "ExtractedContact list \<Rightarrow> ExtractedPerson list \<Rightarrow> SelectedPath list
    \<Rightarrow> SelectedPath list" where
  "addNamedEmails contacts [] rankedPaths = rankedPaths"
| "addNamedEmails contacts (person # people) rankedPaths =
     (case find (belongsTo person) contacts of
        Some personalEmail \<Rightarrow>
          addNamedEmails contacts people (rankedPaths @ [namedEmailPath person personalEmail])
      | None \<Rightarrow> addNamedEmails contacts people rankedPaths)"

definition isPartnershipEmail :: "ExtractedContact \<Rightarrow> bool" where
  "isPartnershipEmail c =
     (emailType c = Some ''partnerships'' \<or> emailType c = Some ''partner'' \<or>
      emailType c = Some ''sponsorship'' \<or> emailType c = Some ''sponsor'')"

definition isMarketingEmail :: "ExtractedContact \<Rightarrow> bool" where
  "isMarketingEmail c = (emailType c = Some ''marketing'' \<or> emailType c = Some ''brand'')"

definition plainPath :: "SelectedType \<Rightarrow> int \<Rightarrow> ExtractedContact \<Rightarrow> SelectedPath" where
  "plainPath t s c =
     \<lparr>ptype = t, pvalue = cvalue c, personName = None, personTitle = None, score = s,
      pathSourceUrl = Some (sourceUrl c)\<rparr>"

text \<open>Loop 2: partnership and marketing inboxes.\<close>

fun addInboxes :: "ExtractedContact list \<Rightarrow> SelectedPath list \<Rightarrow> SelectedPath list" where
  "addInboxes [] rankedPaths = rankedPaths"
| "addInboxes (c # cs) rankedPaths =
     (if pathType c \<noteq> Email then addInboxes cs rankedPaths
      else if isPartnershipEmail c then addInboxes cs (rankedPaths @ [plainPath Inbox 75 c])
      else if isMarketingEmail c then addInboxes cs (rankedPaths @ [plainPath Inbox 70 c])
      else addInboxes cs rankedPaths)"

text \<open>Loop 3: agencies and press or media emails.\<close>

fun addAgencies :: "ExtractedContact list \<Rightarrow> SelectedPath list \<Rightarrow> SelectedPath list" where
  "addAgencies [] rankedPaths = rankedPaths"
| "addAgencies (c # cs) rankedPaths =
     (if pathType c = Agency then addAgencies cs (rankedPaths @ [plainPath AgencyPath 50 c])
      else if pathType c = Email \<and> (emailType c = Some ''press'' \<or> emailType c = Some ''media'')
      then addAgencies cs (rankedPaths @ [plainPath AgencyPath 45 c])
      else addAgencies cs rankedPaths)"

text \<open>Loop 4: contact forms.\<close>

fun addForms :: "ExtractedContact list \<Rightarrow> SelectedPath list \<Rightarrow> SelectedPath list" where
  "addForms [] rankedPaths = rankedPaths"
| "addForms (c # cs) rankedPaths =
     (if pathType c = Form then addForms cs (rankedPaths @ [plainPath FormPath 40 c])
      else addForms cs rankedPaths)"

text \<open>Loop 5: every email whose value is not yet among the candidates.\<close>

fun addGenericEmails :: "ExtractedContact list \<Rightarrow> SelectedPath list \<Rightarrow> SelectedPath list" where
  "addGenericEmails [] rankedPaths = rankedPaths"
| "addGenericEmails (c # cs) rankedPaths =
     (if pathType c = Email \<and> find (\<lambda>p. pvalue p = cvalue c) rankedPaths = None
      then addGenericEmails cs (rankedPaths @ [plainPath Inbox 30 c])
      else addGenericEmails cs rankedPaths)"

definition linkedinPath :: "string \<Rightarrow> string option \<Rightarrow> SelectedPath" where
  "linkedinPath companyName region =
     \<lparr>ptype = Linkedin,
      pvalue = generateLinkedInSearchUrl companyName (Some ''Brand Partnerships'') region,
      personName = None, personTitle = None, score = 25, pathSourceUrl = None\<rparr>"

text \<open>The candidate list before sorting, in the order the five loops and the fallback push.\<close>

definition candidatePaths :: "ExtractedContact list \<Rightarrow> ExtractedPerson list \<Rightarrow> string
    \<Rightarrow> string option \<Rightarrow> SelectedPath list" where
  "candidatePaths contacts people companyName region =
     addGenericEmails contacts
       (addForms contacts
         (addAgencies contacts
           (addInboxes contacts
             (addNamedEmails contacts people []))))
     @ [linkedinPath companyName region]"

text \<open>
  \<open>rankedPaths.sort((a, b) => b.score - a.score)\<close>: the array sort is stable, so the
  candidates are ordered by descending score and, among equal scores, by push order.
\<close>

definition sortByScore :: "SelectedPath list \<Rightarrow> SelectedPath list" where
  "sortByScore ps = sort_key (\<lambda>p. - score p) ps"

definition rankedPaths :: "ExtractedContact list \<Rightarrow> ExtractedPerson list \<Rightarrow> string
    \<Rightarrow> string option \<Rightarrow> SelectedPath list" where
  "rankedPaths contacts people companyName region =
     sortByScore (candidatePaths contacts people companyName region)"

definition manualLinkedinUrls :: "string \<Rightarrow> string option \<Rightarrow> (string \<times> string) list" where
  "manualLinkedinUrls companyName region =
     map (\<lambda>t. (t, generateLinkedInSearchUrl companyName (Some t) region))
       [''Brand Partnerships'', ''Sports Marketing'', ''Sponsorship Manager'',
        ''Marketing Director'']"

text \<open>
  \<open>selectBestPaths\<close>, with the two database reads (\<open>getCompanyContacts\<close>,
  \<open>getCompanyPeople\<close>) passed in as the stored lists. \<open>None\<close> is the source's \<open>null\<close>.
\<close>

definition selectBestPaths :: "ExtractedContact list \<Rightarrow> ExtractedPerson list \<Rightarrow> string
    \<Rightarrow> string option \<Rightarrow> PathSelection option" where
  "selectBestPaths contacts people companyName region =
     (case rankedPaths contacts people companyName region of
        [] \<Rightarrow> None
      | p # rest \<Rightarrow>
          Some \<lparr>primary = p,
                backup = elemAt rest 0,
                linkedinUrls = manualLinkedinUrls companyName region\<rparr>)"

section \<open>Whitespace and small string helpers\<close>

definition isSpace :: "char \<Rightarrow> bool" where
  "isSpace c = (c \<in> set [CHR '' '', CHR 0x09, CHR 0x0A, CHR 0x0B, CHR 0x0C, CHR 0x0D])"

text \<open>\<open>s.trim()\<close>.\<close>

definition trim :: "string \<Rightarrow> string" where
  "trim s = rev (dropWhile isSpace (rev (dropWhile isSpace s)))"

text \<open>
  \<open>s.replace(/\s+/g, ' ')\<close>: every maximal run of whitespace becomes one space. The
  flag says whether the previous character was whitespace.
\<close>

fun collapseRuns :: "bool \<Rightarrow> string \<Rightarrow> string" where
  "collapseRuns inRun [] = []"
| "collapseRuns inRun (c # cs) =
     (if isSpace c then (if inRun then collapseRuns True cs else CHR '' '' # collapseRuns True cs)
      else c # collapseRuns False cs)"

definition collapseSpaces :: "string \<Rightarrow> string" where
  "collapseSpaces s = collapseRuns False s"

text \<open>\<open>s.replace(pat, '')\<close> with a string pattern: the first occurrence is removed.\<close>

fun removeFirst :: "string \<Rightarrow> string \<Rightarrow> string" where
  "removeFirst pat [] = []"
| "removeFirst pat (c # cs) =
     (if startsWith (c # cs) pat then drop (length pat) (c # cs) else c # removeFirst pat cs)"

text \<open>\<open>s.indexOf(t)\<close>: the first position of \<open>t\<close> in \<open>s\<close>, or \<open>-1\<close>.\<close>

fun indexFrom :: "nat \<Rightarrow> string \<Rightarrow> string \<Rightarrow> int" where
  "indexFrom k [] t = (if t = [] then int k else - 1)"
| "indexFrom k (c # cs) t = (if startsWith (c # cs) t then int k else indexFrom (Suc k) cs t)"

definition indexOf :: "string \<Rightarrow> string \<Rightarrow> int" where
  "indexOf s t = indexFrom 0 s t"

text \<open>\<open>s.slice(start, end)\<close> for \<open>0 \<le> start\<close> and \<open>0 \<le> end\<close>.\<close>

definition slice :: "string \<Rightarrow> int \<Rightarrow> int \<Rightarrow> string" where
  "slice s start stop = take (nat stop - nat start) (drop (nat start) s)"

text \<open>
  A number in a template string: its decimal digits (the first ten entries of the digit
  table of \<open>hexDigit\<close>).
\<close>

fun showNat :: "nat \<Rightarrow> string" where
  "showNat n =
     (if n < 10 then [hexDigit n] else showNat (n div 10) @ [hexDigit (n mod 10)])"

text \<open>\<open>Set.add\<close> and \<open>Map.set\<close> on insertion-ordered collections.\<close>

definition setAdd :: "'a list \<Rightarrow> 'a \<Rightarrow> 'a list" where
  "setAdd xs x = (if x \<in> set xs then xs else xs @ [x])"

fun mapSet :: "('k \<times> 'v) list \<Rightarrow> 'k \<Rightarrow> 'v \<Rightarrow> ('k \<times> 'v) list" where
  "mapSet [] k v = [(k, v)]"
| "mapSet ((k', v') # m) k v = (if k' = k then (k, v) # m else (k', v') # mapSet m k v)"

section \<open>The runtime and the libraries\<close>

text \<open>
  The sources call the runtime (\<open>fetch\<close>, \<open>URL\<close>, regular expressions) and the
  cheerio document library. What these return is not code of the repository: it is a
  parameter of the model, the record \<open>Platform\<close>. Every result below holds for all
  platforms; the examples use small explicit ones.
\<close>

text \<open>
  The outcome of one \<open>fetch\<close> call as \<open>fetchPage\<close> sees it: the call (or the reading
  and parsing of the body) throws with a message, or a response arrives with a status
  code and a body.
\<close>

datatype NetResponse = Rejected string | Responded nat string

record Url =
  hostname :: string
  pathname :: string

record FormElement =
  action :: "string option"
  hasEmailField :: bool
  hasTextarea :: bool

record TeamCard =
  cardText :: string
  headingText :: string
  titleText :: string

record WikiLink =
  linkTarget :: string
  linkLabel :: "string option"
  titleAfter :: "string option"

record Platform =
  fetchResponse :: "nat \<Rightarrow> string \<Rightarrow> NetResponse"
    \<comment> \<open>the outcome of the n-th \<open>fetch\<close> call of the run (from 0), for a URL\<close>
  urlParse :: "string \<Rightarrow> Url option"
    \<comment> \<open>\<open>new URL(s)\<close>; \<open>None\<close> when it throws\<close>
  urlResolve :: "string \<Rightarrow> string \<Rightarrow> string option"
    \<comment> \<open>\<open>new URL(rel, base).toString()\<close>; \<open>None\<close> when it throws\<close>
  visibleBodyText :: "string \<Rightarrow> string"
    \<comment> \<open>body text of a document once script, style and noscript elements are removed\<close>
  anchorHrefs :: "string \<Rightarrow> string list"
    \<comment> \<open>the \<open>href\<close> of every \<open>a[href]\<close> element, in document order\<close>
  mailtoHrefs :: "string \<Rightarrow> string list"
    \<comment> \<open>the \<open>href\<close> of every \<open>a[href^="mailto:"]\<close> element\<close>
  emailPatternMatches :: "string \<Rightarrow> string list"
    \<comment> \<open>the matches of the email pattern in the body text of a document\<close>
  formElements :: "string \<Rightarrow> FormElement list"
    \<comment> \<open>the \<open>form\<close> elements of a document\<close>
  agencyMatches :: "nat \<Rightarrow> string \<Rightarrow> string list"
    \<comment> \<open>group 1 of every match of the k-th agency pattern in a text\<close>
  signalMatches :: "string \<Rightarrow> nat \<Rightarrow> string \<Rightarrow> string list"
    \<comment> \<open>\<open>text.match(pattern)\<close> for the k-th pattern of a category; empty for \<open>null\<close>\<close>
  teamCards :: "string \<Rightarrow> TeamCard list"
    \<comment> \<open>the elements the card selectors select, selector by selector\<close>
  titlePatternTest :: "nat \<Rightarrow> string \<Rightarrow> bool"
    \<comment> \<open>\<open>RELEVANT_TITLES[k].test(title)\<close>\<close>
  personMatches :: "nat \<Rightarrow> string \<Rightarrow> (string \<times> string option) list"
    \<comment> \<open>groups 1 and 2 of every match of the k-th person pattern in a text\<close>
  wikiKeyPeople :: "string \<Rightarrow> WikiLink list"
    \<comment> \<open>the wiki links of the \<open>key_people\<close> infobox field of an article; empty when
        the request throws or the field is absent\<close>

section \<open>Crawler (qualification/crawler.ts)\<close>

definition RELEVANT_PATHS :: "string list" where
  "RELEVANT_PATHS =
     [''/'', ''/about'', ''/about-us'', ''/brand'', ''/community'', ''/sustainability'',
      ''/partnerships'', ''/partners'', ''/sponsorship'', ''/sponsorships'', ''/press'',
      ''/news'', ''/newsroom'', ''/media'', ''/contact'', ''/team'', ''/leadership'',
      ''/our-team'', ''/about/team'']"

record CrawlResult =
  url :: string
  html :: string
  ctext :: string
  links :: "string list"
  success :: bool
  error :: "string option"

definition failedResult :: "string \<Rightarrow> string \<Rightarrow> CrawlResult" where
  "failedResult u msg =
     \<lparr>url = u, html = [], ctext = [], links = [], success = False, error = Some msg\<rparr>"

text \<open>
  \<open>fetchPage\<close>. The second component is the log of the URLs \<open>fetch\<close> has been called
  with, in order; every call of \<open>fetchPage\<close> appends one. (The rate limiter only delays
  the call and is left out.)
\<close>

definition fetchPage :: "Platform \<Rightarrow> string list \<Rightarrow> string \<Rightarrow> CrawlResult \<times> string list" where
  "fetchPage P calls u =
     ((case fetchResponse P (length calls) u of
         Rejected msg \<Rightarrow> failedResult u msg
       | Responded status body \<Rightarrow>
           (if \<not> (200 \<le> status \<and> status \<le> 299) then failedResult u (''HTTP '' @ showNat status)
            else \<lparr>url = u, html = body,
                  ctext = trim (collapseSpaces (visibleBodyText P body)),
                  links = filter (\<lambda>h. h \<noteq> []) (anchorHrefs P body),
                  success = True, error = None\<rparr>)),
      calls @ [u])"

definition normalizeUrl :: "Platform \<Rightarrow> string \<Rightarrow> string \<Rightarrow> string" where
  "normalizeUrl P baseUrl p =
     (if startsWith p ''http://'' \<or> startsWith p ''https://'' then p
      else (case urlParse P baseUrl of
              None \<Rightarrow> []
            | Some base \<Rightarrow> (case urlResolve P p baseUrl of None \<Rightarrow> [] | Some s \<Rightarrow> s)))"

text \<open>Force a scheme, then \<open>replace(/\/$/, '')\<close>: one trailing slash is removed.\<close>

definition normalizeBase :: "string \<Rightarrow> string" where
  "normalizeBase baseUrl =
     (let b = (if startsWith baseUrl ''http'' then baseUrl else ''https://'' @ baseUrl)
      in if b \<noteq> [] \<and> last b = CHR ''/'' then butlast b else b)"

text \<open>The inner loop over \<open>RELEVANT_PATHS\<close> for one same-host link.\<close>

fun addIfRelevant :: "string \<Rightarrow> string list \<Rightarrow> string list \<Rightarrow> string list" where
  "addIfRelevant linkPath [] foundPaths = foundPaths"
| "addIfRelevant linkPath (relevantPath # rest) foundPaths =
     (if toLowerCase linkPath = relevantPath \<or> toLowerCase linkPath = relevantPath @ ''/''
      then addIfRelevant linkPath rest (setAdd foundPaths linkPath)
      else addIfRelevant linkPath rest foundPaths)"

text \<open>The loop over the homepage links.\<close>

fun scanLinks :: "Platform \<Rightarrow> string \<Rightarrow> string list \<Rightarrow> string list \<Rightarrow> string list" where
  "scanLinks P normalizedBase [] foundPaths = foundPaths"
| "scanLinks P normalizedBase (link # rest) foundPaths =
     (let normalized = normalizeUrl P normalizedBase link in
      if normalized = [] then scanLinks P normalizedBase rest foundPaths
      else (case urlParse P normalized of
              None \<Rightarrow> scanLinks P normalizedBase rest foundPaths
            | Some linkUrl \<Rightarrow>
                (case urlParse P normalizedBase of
                   None \<Rightarrow> scanLinks P normalizedBase rest foundPaths
                 | Some base \<Rightarrow>
                     (if hostname linkUrl \<noteq> hostname base
                      then scanLinks P normalizedBase rest foundPaths
                      else scanLinks P normalizedBase rest
                             (addIfRelevant (pathname linkUrl) RELEVANT_PATHS foundPaths)))))"

text \<open>The loop that adds the common paths, the homepage path left out.\<close>

fun addCommonPaths :: "string list \<Rightarrow> string list \<Rightarrow> string list" where
  "addCommonPaths [] foundPaths = foundPaths"
| "addCommonPaths (p # rest) foundPaths =
     (if p \<noteq> ''/'' then addCommonPaths rest (setAdd foundPaths p)
      else addCommonPaths rest foundPaths)"

text \<open>The fetch loop: only successful results are stored.\<close>

fun fetchFound :: "Platform \<Rightarrow> string \<Rightarrow> string list
    \<Rightarrow> (string \<times> CrawlResult) list \<times> string list
    \<Rightarrow> (string \<times> CrawlResult) list \<times> string list" where
  "fetchFound P normalizedBase [] st = st"
| "fetchFound P normalizedBase (p # rest) (results, calls) =
     (case fetchPage P calls (normalizedBase @ p) of
        (result, calls') \<Rightarrow>
          fetchFound P normalizedBase rest
            (if success result then mapSet results p result else results, calls'))"

definition pathsToFetch :: "Platform \<Rightarrow> string \<Rightarrow> CrawlResult \<Rightarrow> string list" where
  "pathsToFetch P normalizedBase homepage =
     take 10 (addCommonPaths RELEVANT_PATHS (scanLinks P normalizedBase (links homepage) []))"

text \<open>
  \<open>crawlCompanyWebsite\<close>: the page collection (a \<open>Map\<close>, in insertion order) and the log
  of fetch calls of the crawl.
\<close>

definition crawlCompanyWebsite :: "Platform \<Rightarrow> string
    \<Rightarrow> (string \<times> CrawlResult) list \<times> string list" where
  "crawlCompanyWebsite P baseUrl =
     (let normalizedBase = normalizeBase baseUrl in
      case fetchPage P [] normalizedBase of
        (homepage, calls) \<Rightarrow>
          (let results = mapSet [] ''/'' homepage in
           if \<not> success homepage then (results, calls)
           else fetchFound P normalizedBase (pathsToFetch P normalizedBase homepage)
                  (results, calls)))"


definition requestsSent :: "Platform \<Rightarrow> string list \<Rightarrow> string list" where
  "requestsSent P calls = filter (\<lambda>u. urlParse P u \<noteq> None) calls"

section \<open>Contact extraction (contacts/extractor.ts)\<close>

text \<open>\<open>Object.entries(EMAIL_PRIORITY)\<close>: the table in the order it is written.\<close>

definition EMAIL_PRIORITY :: "(string \<times> int) list" where
  "EMAIL_PRIORITY =
     [(''partnerships'', 100), (''partner'', 95), (''sponsorship'', 95), (''sponsor'', 90),
      (''marketing'', 80), (''brand'', 75), (''press'', 60), (''media'', 60), (''pr'', 55),
      (''info'', 40), (''contact'', 35), (''hello'', 30)]"

definition blacklist :: "string list" where
  "blacklist = [''example.com'', ''email.com'', ''domain.com'', ''test.com'']"

definition isValidEmail :: "string \<Rightarrow> bool" where
  "isValidEmail email =
     (case elemAt (splitOn CHR ''@'' email) 1 of
        None \<Rightarrow> False
      | Some domain \<Rightarrow>
          (if domain = [] then False
           else if list_ex (\<lambda>b. includesStr domain b) blacklist then False
           else if length email > 100 then False
           else True))"

text \<open>
  The loop of \<open>createEmailContact\<close> over the table, leaving at the first keyword the
  local part contains; the initial values stay when no keyword matches.
\<close>

fun classifyPrefix :: "(string \<times> int) list \<Rightarrow> string \<Rightarrow> string \<times> int" where
  "classifyPrefix [] prefix = (''general'', 20)"
| "classifyPrefix ((keyword, points) # rest) prefix =
     (if includesStr prefix keyword then (keyword, points) else classifyPrefix rest prefix)"

definition localPart :: "string \<Rightarrow> string" where
  "localPart email =
     toLowerCase (case elemAt (splitOn CHR ''@'' email) 0 of Some p \<Rightarrow> p | None \<Rightarrow> [])"

definition createEmailContact :: "string \<Rightarrow> string \<Rightarrow> ExtractedContact" where
  "createEmailContact email src =
     (case classifyPrefix EMAIL_PRIORITY (localPart email) of
        (kind, points) \<Rightarrow>
          \<lparr>pathType = Email, cvalue = email, emailType = Some kind,
           confidenceScore = points, sourceUrl = src\<rparr>)"

text \<open>The two loops of \<open>extractEmails\<close>: mail links, then addresses in the text.\<close>

definition mailtoAddress :: "string \<Rightarrow> string" where
  "mailtoAddress href =
     toLowerCase (case elemAt (splitOn CHR ''?'' (removeFirst ''mailto:'' href)) 0 of
                    Some a \<Rightarrow> a
                  | None \<Rightarrow> [])"

fun addMailtoEmails :: "string \<Rightarrow> string list \<Rightarrow> ExtractedContact list
    \<Rightarrow> ExtractedContact list" where
  "addMailtoEmails src [] contacts = contacts"
| "addMailtoEmails src (href # rest) contacts =
     (if href \<noteq> [] \<and> isValidEmail (mailtoAddress href)
      then addMailtoEmails src rest (contacts @ [createEmailContact (mailtoAddress href) src])
      else addMailtoEmails src rest contacts)"

fun addTextEmails :: "string \<Rightarrow> string list \<Rightarrow> ExtractedContact list
    \<Rightarrow> ExtractedContact list" where
  "addTextEmails src [] contacts = contacts"
| "addTextEmails src (email # rest) contacts =
     (if isValidEmail (toLowerCase email)
         \<and> find (\<lambda>c. cvalue c = toLowerCase email) contacts = None
      then addTextEmails src rest (contacts @ [createEmailContact (toLowerCase email) src])
      else addTextEmails src rest contacts)"

definition extractEmails :: "Platform \<Rightarrow> string \<Rightarrow> string \<Rightarrow> ExtractedContact list" where
  "extractEmails P doc src =
     addTextEmails src (emailPatternMatches P doc) (addMailtoEmails src (mailtoHrefs P doc) [])"

definition formUrl :: "Platform \<Rightarrow> string \<Rightarrow> string \<Rightarrow> FormElement \<Rightarrow> string" where
  "formUrl P baseUrl src f =
     (let act = (case action f of None \<Rightarrow> [] | Some a \<Rightarrow> a) in
      if act \<noteq> [] \<and> \<not> startsWith act ''javascript:''
      then (case urlResolve P act baseUrl of Some u \<Rightarrow> u | None \<Rightarrow> src)
      else src)"

fun addFormContacts :: "Platform \<Rightarrow> string \<Rightarrow> string \<Rightarrow> FormElement list \<Rightarrow> ExtractedContact list
    \<Rightarrow> ExtractedContact list" where
  "addFormContacts P baseUrl src [] contacts = contacts"
| "addFormContacts P baseUrl src (f # rest) contacts =
     (if hasEmailField f \<or> hasTextarea f
      then addFormContacts P baseUrl src rest
             (contacts @ [\<lparr>pathType = Form, cvalue = formUrl P baseUrl src f, emailType = None,
                           confidenceScore = 40, sourceUrl = src\<rparr>])
      else addFormContacts P baseUrl src rest contacts)"

definition extractContactForms :: "Platform \<Rightarrow> string \<Rightarrow> string \<Rightarrow> string
    \<Rightarrow> ExtractedContact list" where
  "extractContactForms P doc baseUrl src = addFormContacts P baseUrl src (formElements P doc) []"

fun addAgencyNames :: "string \<Rightarrow> string list \<Rightarrow> ExtractedContact list
    \<Rightarrow> ExtractedContact list" where
  "addAgencyNames src [] contacts = contacts"
| "addAgencyNames src (m # rest) contacts =
     (if m \<noteq> [] \<and> length m > 3 \<and> length m < 50
      then addAgencyNames src rest
             (contacts @ [\<lparr>pathType = Agency, cvalue = trim m, emailType = None,
                           confidenceScore = 50, sourceUrl = src\<rparr>])
      else addAgencyNames src rest contacts)"

definition extractAgencyMentions :: "Platform \<Rightarrow> string \<Rightarrow> string \<Rightarrow> ExtractedContact list" where
  "extractAgencyMentions P txt src =
     addAgencyNames src (agencyMatches P 1 txt) (addAgencyNames src (agencyMatches P 0 txt) [])"

text \<open>
  The state of \<open>extractContacts\<close>: the contacts collected so far and the set of values
  seen so far. \<open>addUnseen\<close> is the loop that follows each of the three extractions.
\<close>

fun addUnseen :: "ExtractedContact list \<Rightarrow> ExtractedContact list \<times> string list
    \<Rightarrow> ExtractedContact list \<times> string list" where
  "addUnseen [] st = st"
| "addUnseen (contact # rest) (allContacts, seenValues) =
     (if cvalue contact \<notin> set seenValues
      then addUnseen rest (allContacts @ [contact], setAdd seenValues (cvalue contact))
      else addUnseen rest (allContacts, seenValues))"

fun contactsOfPages :: "Platform \<Rightarrow> string \<Rightarrow> (string \<times> CrawlResult) list
    \<Rightarrow> ExtractedContact list \<times> string list \<Rightarrow> ExtractedContact list \<times> string list" where
  "contactsOfPages P baseUrl [] st = st"
| "contactsOfPages P baseUrl ((path, result) # rest) st =
     (if \<not> success result then contactsOfPages P baseUrl rest st
      else
        (let st1 = addUnseen (extractEmails P (html result) (url result)) st;
             st2 = (if includesStr path ''contact'' \<or> includesStr path ''partner'' \<or> path = ''/''
                    then addUnseen (extractContactForms P (html result) baseUrl (url result)) st1
                    else st1);
             st3 = addUnseen (extractAgencyMentions P (ctext result) (url result)) st2
         in contactsOfPages P baseUrl rest st3))"

text \<open>
  \<open>allContacts.sort((a, b) => b.confidenceScore - a.confidenceScore)\<close>, a stable sort.
\<close>

definition sortByConfidence :: "ExtractedContact list \<Rightarrow> ExtractedContact list" where
  "sortByConfidence cs = sort_key (\<lambda>c. - confidenceScore c) cs"

definition extractContacts :: "Platform \<Rightarrow> (string \<times> CrawlResult) list \<Rightarrow> string
    \<Rightarrow> ExtractedContact list" where
  "extractContacts P crawlResults baseUrl =
     sortByConfidence (fst (contactsOfPages P baseUrl crawlResults ([], [])))"

section \<open>Signal analysis (qualification/analyzer.ts)\<close>

record SignalMatch =
  stype :: string
  stext :: string
  sscore :: int

text \<open>
  \<open>Object.entries(SIGNAL_PATTERNS)\<close>: category, the indices of its patterns (each
  category has one) and its weight. The patterns themselves are read by the platform.
\<close>

definition SIGNAL_PATTERNS :: "(string \<times> nat list \<times> int) list" where
  "SIGNAL_PATTERNS =
     [(''sport'', [0], 15), (''youth'', [0], 20), (''culture'', [0], 20),
      (''community'', [0], 15), (''partnership'', [0], 25),
      (''previous_sponsorship'', [0], 30), (''events'', [0], 10)]"

definition signalContext :: "string \<Rightarrow> string \<Rightarrow> string" where
  "signalContext txt firstMatch =
     (let idx = indexOf (toLowerCase txt) (toLowerCase firstMatch);
          start = max 0 (idx - 50);
          stop = min (int (length txt)) (idx + int (length firstMatch) + 50)
      in trim (collapseSpaces (slice txt start stop)))"

text \<open>The inner loop over the patterns of one category, left at the first that matches.\<close>

fun firstPatternSignal :: "Platform \<Rightarrow> string \<Rightarrow> string \<Rightarrow> int \<Rightarrow> nat list
    \<Rightarrow> SignalMatch list" where
  "firstPatternSignal P txt kind weight [] = []"
| "firstPatternSignal P txt kind weight (k # rest) =
     (case signalMatches P kind k txt of
        [] \<Rightarrow> firstPatternSignal P txt kind weight rest
      | firstMatch # others \<Rightarrow>
          [\<lparr>stype = kind, stext = ''...'' @ signalContext txt firstMatch @ ''...'',
            sscore = weight\<rparr>])"

fun signalsOfTable :: "Platform \<Rightarrow> string \<Rightarrow> (string \<times> nat list \<times> int) list
    \<Rightarrow> SignalMatch list" where
  "signalsOfTable P txt [] = []"
| "signalsOfTable P txt ((kind, patterns, weight) # rest) =
     firstPatternSignal P txt kind weight patterns @ signalsOfTable P txt rest"

definition findSignals :: "Platform \<Rightarrow> string \<Rightarrow> SignalMatch list" where
  "findSignals P txt = signalsOfTable P txt SIGNAL_PATTERNS"

fun addNewSignals :: "string \<Rightarrow> SignalMatch list \<Rightarrow> SignalMatch list \<times> string list
    \<Rightarrow> SignalMatch list \<times> string list" where
  "addNewSignals path [] st = st"
| "addNewSignals path (signal # rest) (allSignals, seenTypes) =
     (if stype signal \<notin> set seenTypes
      then addNewSignals path rest
             (allSignals @ [signal\<lparr>stext := ''['' @ path @ ''] '' @ stext signal\<rparr>],
              setAdd seenTypes (stype signal))
      else addNewSignals path rest (allSignals, seenTypes))"

fun signalsOfPages :: "Platform \<Rightarrow> (string \<times> CrawlResult) list
    \<Rightarrow> SignalMatch list \<times> string list \<Rightarrow> SignalMatch list \<times> string list" where
  "signalsOfPages P [] st = st"
| "signalsOfPages P ((path, result) # rest) st =
     (if \<not> success result then signalsOfPages P rest st
      else signalsOfPages P rest (addNewSignals path (findSignals P (ctext result)) st))"

definition analyzePageContent :: "Platform \<Rightarrow> (string \<times> CrawlResult) list \<Rightarrow> SignalMatch list" where
  "analyzePageContent P crawlResults = fst (signalsOfPages P crawlResults ([], []))"

definition calculateQualificationScore :: "SignalMatch list \<Rightarrow> int" where
  "calculateQualificationScore signals = foldl (\<lambda>total signal. total + sscore signal) 0 signals"

section \<open>People extraction (people/extractor.ts)\<close>

definition generatePersonLinkedInUrl :: "string \<Rightarrow> string \<Rightarrow> string" where
  "generatePersonLinkedInUrl fullName companyName =
     ''https://www.linkedin.com/search/results/people/?''
     @ urlSearchParams [(''keywords'', fullName @ '' '' @ companyName),
                        (''origin'', ''GLOBAL_SEARCH_HEADER'')]"

definition RELEVANT_DEPARTMENTS :: "(string \<times> string list) list" where
  "RELEVANT_DEPARTMENTS =
     [(''brand'', [''brand'', ''branding'']),
      (''partnerships'', [''partnership'', ''partner'', ''sponsorship'', ''sponsor'']),
      (''marketing'', [''marketing'', ''market'', ''growth'']),
      (''sports'', [''sport'', ''sports'', ''athletic'']),
      (''csr'', [''csr'', ''sustainability'', ''social responsibility'', ''impact'']),
      (''community'', [''community'', ''communities'', ''engagement'']),
      (''communications'', [''communications'', ''pr'', ''press'', ''media''])]"

fun classifyIn :: "(string \<times> string list) list \<Rightarrow> string \<Rightarrow> string option" where
  "classifyIn [] lowerTitle = None"
| "classifyIn ((dept, keywords) # rest) lowerTitle =
     (if list_ex (\<lambda>keyword. includesStr lowerTitle keyword) keywords then Some dept
      else classifyIn rest lowerTitle)"

definition classifyDepartment :: "string \<Rightarrow> string option" where
  "classifyDepartment title = classifyIn RELEVANT_DEPARTMENTS (toLowerCase title)"

definition isRelevantTitle :: "Platform \<Rightarrow> string \<Rightarrow> bool" where
  "isRelevantTitle P title = list_ex (\<lambda>k. titlePatternTest P k title) [0, 1, 2, 3]"

text \<open>
  The name test \<open>/^[A-Z][a-z]+(\s+[A-Z][a-z]+){1,n}$/\<close>: a capitalised word, then one
  to \<open>n\<close> further capitalised words, each after a run of whitespace.
\<close>

definition isUpper :: "char \<Rightarrow> bool" where
  "isUpper c = (c \<in> set ''ABCDEFGHIJKLMNOPQRSTUVWXYZ'')"

definition isLower :: "char \<Rightarrow> bool" where
  "isLower c = (c \<in> set ''abcdefghijklmnopqrstuvwxyz'')"

definition capitalisedWord :: "string \<Rightarrow> string option" where
  "capitalisedWord s =
     (case s of
        [] \<Rightarrow> None
      | c # cs \<Rightarrow>
          (if isUpper c \<and> takeWhile isLower cs \<noteq> [] then Some (dropWhile isLower cs)
           else None))"

fun furtherWords :: "nat \<Rightarrow> string \<Rightarrow> nat option" where
  "furtherWords 0 s = (if s = [] then Some 0 else None)"
| "furtherWords (Suc n) s =
     (if s = [] then Some 0
      else if takeWhile isSpace s = [] then None
      else (case capitalisedWord (dropWhile isSpace s) of
              None \<Rightarrow> None
            | Some r \<Rightarrow> map_option Suc (furtherWords n r)))"

definition isPersonName :: "nat \<Rightarrow> string \<Rightarrow> bool" where
  "isPersonName n s =
     (case capitalisedWord s of
        None \<Rightarrow> False
      | Some r \<Rightarrow> (case furtherWords n r of None \<Rightarrow> False | Some k \<Rightarrow> 1 \<le> k))"

text \<open>One selected card of \<open>extractPeopleFromTeamPage\<close>.\<close>

definition cardNameAndTitle :: "TeamCard \<Rightarrow> string \<times> string" where
  "cardNameAndTitle el =
     (let heading = trim (headingText el); title = trim (titleText el) in
      if heading = [] \<and> length (cardText el) < 200
      then (case filter (\<lambda>l. l \<noteq> []) (map trim (splitOn (CHR 0x0A) (cardText el))) of
              [] \<Rightarrow> (heading, title)
            | l # ls \<Rightarrow> (l, case ls of [] \<Rightarrow> [] | t # ts \<Rightarrow> t))
      else (heading, title))"

definition personOfCard :: "Platform \<Rightarrow> string \<Rightarrow> string \<Rightarrow> TeamCard \<Rightarrow> ExtractedPerson list" where
  "personOfCard P src companyName el =
     (case cardNameAndTitle el of
        (fullName, title) \<Rightarrow>
          (if fullName \<noteq> [] \<and> isPersonName 3 fullName
              \<and> (isRelevantTitle P title \<or> classifyDepartment title \<noteq> None)
           then [\<lparr>name = fullName, jobTitle = (if title = [] then None else Some title),
                  department = classifyDepartment title, personSourceUrl = src,
                  linkedinSearchUrl = generatePersonLinkedInUrl fullName companyName\<rparr>]
           else []))"

definition extractPeopleFromTeamPage :: "Platform \<Rightarrow> string \<Rightarrow> string \<Rightarrow> string
    \<Rightarrow> ExtractedPerson list" where
  "extractPeopleFromTeamPage P doc src companyName =
     concat (map (personOfCard P src companyName) (teamCards P doc))"

text \<open>The loop of \<open>extractPeopleFromText\<close> over the matches of one pattern.\<close>

definition trimmedTitle :: "string option \<Rightarrow> string option" where
  "trimmedTitle t =
     (case t of None \<Rightarrow> None | Some s \<Rightarrow> (if trim s = [] then None else Some (trim s)))"

fun addTextPeople :: "string \<Rightarrow> string \<Rightarrow> (string \<times> string option) list
    \<Rightarrow> ExtractedPerson list \<Rightarrow> ExtractedPerson list" where
  "addTextPeople src companyName [] people = people"
| "addTextPeople src companyName ((m1, m2) # rest) people =
     (if trim m1 \<noteq> [] \<and> isPersonName 2 (trim m1)
         \<and> find (\<lambda>p. name p = trim m1) people = None
      then addTextPeople src companyName rest
             (people @ [\<lparr>name = trim m1, jobTitle = trimmedTitle m2,
                         department = (case trimmedTitle m2 of
                                         None \<Rightarrow> None
                                       | Some t \<Rightarrow> classifyDepartment t),
                         personSourceUrl = src,
                         linkedinSearchUrl = generatePersonLinkedInUrl (trim m1) companyName\<rparr>])
      else addTextPeople src companyName rest people)"

definition extractPeopleFromText :: "Platform \<Rightarrow> string \<Rightarrow> string \<Rightarrow> string
    \<Rightarrow> ExtractedPerson list" where
  "extractPeopleFromText P txt src companyName =
     addTextPeople src companyName (personMatches P 1 txt)
       (addTextPeople src companyName (personMatches P 0 txt) [])"

text \<open>The external biography pass, \<open>extractPeopleFromWikipedia\<close>.\<close>

definition personOfWikiLink :: "string \<Rightarrow> string \<Rightarrow> WikiLink \<Rightarrow> ExtractedPerson list" where
  "personOfWikiLink wikipediaUrl companyName l =
     (let fullName = trim (case linkLabel l of
                             None \<Rightarrow> linkTarget l
                           | Some lbl \<Rightarrow> (if lbl = [] then linkTarget l else lbl));
          title = map_option trim (titleAfter l)
      in if fullName \<noteq> [] \<and> isPersonName 2 fullName
         then [\<lparr>name = fullName, jobTitle = title,
                department = (case title of
                                None \<Rightarrow> None
                              | Some t \<Rightarrow> (if t = [] then None else classifyDepartment t)),
                personSourceUrl = wikipediaUrl,
                linkedinSearchUrl = generatePersonLinkedInUrl fullName companyName\<rparr>]
         else [])"

definition extractPeopleFromWikipedia :: "Platform \<Rightarrow> string \<Rightarrow> string \<Rightarrow> ExtractedPerson list" where
  "extractPeopleFromWikipedia P wikipediaUrl companyName =
     concat (map (personOfWikiLink wikipediaUrl companyName) (wikiKeyPeople P wikipediaUrl))"

text \<open>\<open>extractPeople\<close>: the people collected so far and the lower-cased names seen.\<close>

fun addNewPeople :: "ExtractedPerson list \<Rightarrow> ExtractedPerson list \<times> string list
    \<Rightarrow> ExtractedPerson list \<times> string list" where
  "addNewPeople [] st = st"
| "addNewPeople (person # rest) (allPeople, seenNames) =
     (if toLowerCase (name person) \<notin> set seenNames
      then addNewPeople rest (allPeople @ [person], setAdd seenNames (toLowerCase (name person)))
      else addNewPeople rest (allPeople, seenNames))"

fun peopleOfPages :: "Platform \<Rightarrow> string \<Rightarrow> (string \<times> CrawlResult) list
    \<Rightarrow> ExtractedPerson list \<times> string list \<Rightarrow> ExtractedPerson list \<times> string list" where
  "peopleOfPages P companyName [] st = st"
| "peopleOfPages P companyName ((path, result) # rest) st =
     (if \<not> success result then peopleOfPages P companyName rest st
      else
        (let isTeamPage = (includesStr path ''team'' \<or> includesStr path ''leadership''
                           \<or> includesStr path ''about'');
             extracted = (if isTeamPage
                          then extractPeopleFromTeamPage P (html result) (url result) companyName
                          else [])
                         @ extractPeopleFromText P (ctext result) (url result) companyName
         in peopleOfPages P companyName rest (addNewPeople extracted st)))"

definition extractPeople :: "Platform \<Rightarrow> (string \<times> CrawlResult) list \<Rightarrow> string
    \<Rightarrow> ExtractedPerson list" where
  "extractPeople P crawlResults companyName =
     fst (peopleOfPages P companyName crawlResults ([], []))"

text \<open>
  Step 4 of the \<open>qualify\<close> command: the list handed to \<open>savePeople\<close>, which deletes the
  stored people of the company and inserts this list row by row. The biography pass
  runs when the company has a (non-empty) \<open>wikipedia_url\<close>.
\<close>

definition peopleToSave :: "Platform \<Rightarrow> (string \<times> CrawlResult) list \<Rightarrow> string
    \<Rightarrow> string option \<Rightarrow> ExtractedPerson list" where
  "peopleToSave P crawlResults companyName wikipediaUrl =
     (let people = extractPeople P crawlResults companyName in
      case wikipediaUrl of
        None \<Rightarrow> people
      | Some w \<Rightarrow>
          (if w = [] then people
           else people @ extractPeopleFromWikipedia P w companyName))"

section \<open>Example inputs\<close>

text \<open>
  A platform on which every request throws, nothing parses and no pattern matches; the
  other examples change the fields they need.
\<close>

definition quietPlatform :: Platform where
  "quietPlatform =
     \<lparr>fetchResponse = (\<lambda>n u. Rejected (''Failed to parse URL from '' @ u)),
      urlParse = (\<lambda>s. None),
      urlResolve = (\<lambda>r b. None),
      visibleBodyText = (\<lambda>d. []),
      anchorHrefs = (\<lambda>d. []),
      mailtoHrefs = (\<lambda>d. []),
      emailPatternMatches = (\<lambda>d. []),
      formElements = (\<lambda>d. []),
      agencyMatches = (\<lambda>k t. []),
      signalMatches = (\<lambda>c k t. []),
      teamCards = (\<lambda>d. []),
      titlePatternTest = (\<lambda>k t. False),
      personMatches = (\<lambda>k t. []),
      wikiKeyPeople = (\<lambda>w. [])\<rparr>"

text \<open>A site whose server answers every request with status 503.\<close>

definition downSite :: Platform where
  "downSite = quietPlatform\<lparr>fetchResponse := (\<lambda>n u. Responded 503 [])\<rparr>"

text \<open>
  A site whose homepage links to \<open>/\<close> (its own address), as a logo link does. The
  server answers the homepage at \<open>https://acme.test\<close> and \<open>https://acme.test/\<close> and
  answers 404 elsewhere; \<open>new URL('/', 'https://acme.test')\<close> is \<open>https://acme.test/\<close>,
  with host \<open>acme.test\<close> and path \<open>/\<close>.
\<close>

definition acmeHome :: string where
  "acmeHome = ''<body><a href=/>Acme</a> Welcome</body>''"

definition acmeSite :: Platform where
  "acmeSite = quietPlatform
     \<lparr>fetchResponse := (\<lambda>n u. if u = ''https://acme.test'' \<or> u = ''https://acme.test/''
                               then Responded 200 acmeHome else Responded 404 []),
      urlParse := (\<lambda>s. if s = ''https://acme.test'' \<or> s = ''https://acme.test/''
                        then Some \<lparr>hostname = ''acme.test'', pathname = ''/''\<rparr> else None),
      urlResolve := (\<lambda>r b. if r = ''/'' \<and> b = ''https://acme.test''
                            then Some ''https://acme.test/'' else None),
      visibleBodyText := (\<lambda>d. if d = acmeHome then ''Acme Welcome'' else []),
      anchorHrefs := (\<lambda>d. if d = acmeHome then [''/''] else [])\<rparr>"



text \<open>
  A crawled homepage that names Jane Doe in its text (both person patterns match), for
  a company whose encyclopedia article lists Jane Doe among its key people.
\<close>

definition janeText :: string where
  "janeText = ''Partnerships are led by Jane Doe, Head of Marketing.''"

definition janePage :: "(string \<times> CrawlResult) list" where
  "janePage =
     [(''/'', \<lparr>url = ''https://acme.test'', html = ''<body>'' @ janeText @ ''</body>'',
              ctext = janeText, links = [], success = True, error = None\<rparr>)]"

definition janeSite :: Platform where
  "janeSite = quietPlatform
     \<lparr>personMatches :=
        (\<lambda>k t. if k = 0 \<and> t = janeText then [(''Jane Doe'', Some ''Head of Marketing'')]
                else if k = 1 \<and> t = janeText then [(''Jane Doe'', None)]
                else []),
      wikiKeyPeople :=
        (\<lambda>w. if w = ''https://en.wikipedia.org/wiki/Acme''
              then [\<lparr>linkTarget = ''Jane Doe'', linkLabel = None, titleAfter = Some ''CMO''\<rparr>]
              else [])\<rparr>"

text \<open>A stored person and the page the example contacts were found on.\<close>

definition janeDoe :: ExtractedPerson where
  "janeDoe =
     \<lparr>name = ''Jane Doe'', jobTitle = Some ''Head of Partnerships'',
      department = Some ''partnerships'', personSourceUrl = ''https://company.com/team'',
      linkedinSearchUrl = generatePersonLinkedInUrl ''Jane Doe'' ''Company''\<rparr>"

definition contactPage :: string where
  "contactPage = ''https://company.com/contact''"

section \<open>Auxiliary predicates\<close>

text \<open>
  The invariant of the three deduplicating loops: the seen keys are exactly the keys of
  the collected items, and no key is collected twice.
\<close>

definition seenInv :: "('a \<Rightarrow> string) \<Rightarrow> 'a list \<times> string list \<Rightarrow> bool" where
  "seenInv key st = (set (snd st) = key ` set (fst st) \<and> distinct (map key (fst st)))"

definition inboxBelow100 :: "SelectedPath \<Rightarrow> bool" where
  "inboxBelow100 p = (ptype p = Inbox \<longrightarrow> score p < 100)"

definition lowerName :: "ExtractedPerson \<Rightarrow> string" where
  "lowerName p = toLowerCase (name p)"

section \<open>Results\<close>

subsection \<open>Path selection is total\<close>

lemma sortByScore_length: "length (sortByScore ps) = length ps"
  by (simp add: sortByScore_def)

lemma candidatePaths_nonempty: "candidatePaths contacts people companyName region \<noteq> []"
  by (simp add: candidatePaths_def)

lemma rankedPaths_nonempty: "rankedPaths contacts people companyName region \<noteq> []"
proof -
  have "length (rankedPaths contacts people companyName region)
      = length (candidatePaths contacts people companyName region)"
    by (simp add: rankedPaths_def sortByScore_length)
  then show ?thesis
    using candidatePaths_nonempty [of contacts people companyName region] by auto
qed

text \<open>
  C1. \<open>selectBestPaths\<close> returns a selection (never \<open>null\<close>) for all stored contacts and
  people, and its primary is the top-ranked candidate; with no contacts and no people
  the primary is the external-search fallback with score 25 (and there is no backup).
\<close>

theorem selectBestPaths_total:
  "(\<exists>sel. selectBestPaths contacts people companyName region = Some sel
          \<and> elemAt (rankedPaths contacts people companyName region) 0 = Some (primary sel))
   \<and> selectBestPaths [] [] companyName region
       = Some \<lparr>primary = linkedinPath companyName region, backup = None,
               linkedinUrls = manualLinkedinUrls companyName region\<rparr>
   \<and> ptype (linkedinPath companyName region) = Linkedin
   \<and> score (linkedinPath companyName region) = 25"
proof -
  obtain p rest where r: "rankedPaths contacts people companyName region = p # rest"
    using rankedPaths_nonempty [of contacts people companyName region]
    by (cases "rankedPaths contacts people companyName region") auto
  have total: "\<exists>sel. selectBestPaths contacts people companyName region = Some sel
          \<and> elemAt (rankedPaths contacts people companyName region) 0 = Some (primary sel)"
    by (simp add: selectBestPaths_def r)
  have "rankedPaths [] [] companyName region = [linkedinPath companyName region]"
    by (simp add: rankedPaths_def candidatePaths_def sortByScore_def)
  then have empty: "selectBestPaths [] [] companyName region
       = Some \<lparr>primary = linkedinPath companyName region, backup = None,
               linkedinUrls = manualLinkedinUrls companyName region\<rparr>"
    by (simp add: selectBestPaths_def)
  show ?thesis
    using total empty by (simp add: linkedinPath_def)
qed

subsection \<open>Ranking of the candidates\<close>

lemma find_first:
  "\<forall>b \<in> set before. \<not> P b \<Longrightarrow> P c \<Longrightarrow> find P (before @ c # rest) = Some c"
  by (induction before) auto

lemma addNamedEmails_keeps: "x \<in> set acc \<Longrightarrow> x \<in> set (addNamedEmails contacts people acc)"
  by (induction people arbitrary: acc) (simp_all split: option.splits)

lemma addInboxes_keeps: "x \<in> set acc \<Longrightarrow> x \<in> set (addInboxes cs acc)"
  by (induction cs arbitrary: acc) simp_all

lemma addAgencies_keeps: "x \<in> set acc \<Longrightarrow> x \<in> set (addAgencies cs acc)"
  by (induction cs arbitrary: acc) simp_all

lemma addForms_keeps: "x \<in> set acc \<Longrightarrow> x \<in> set (addForms cs acc)"
  by (induction cs arbitrary: acc) simp_all

lemma addGenericEmails_keeps: "x \<in> set acc \<Longrightarrow> x \<in> set (addGenericEmails cs acc)"
  by (induction cs arbitrary: acc) simp_all

lemma addNamedEmails_adds:
  "person \<in> set people \<Longrightarrow> find (belongsTo person) contacts = Some c
   \<Longrightarrow> namedEmailPath person c \<in> set (addNamedEmails contacts people acc)"
proof (induction people arbitrary: acc)
  case Nil
  then show ?case by simp
next
  case (Cons q people)
  show ?case
  proof (cases "q = person")
    case True
    have "namedEmailPath person c \<in> set (acc @ [namedEmailPath person c])" by simp
    then have "namedEmailPath person c
        \<in> set (addNamedEmails contacts people (acc @ [namedEmailPath person c]))"
      by (rule addNamedEmails_keeps)
    then show ?thesis using True Cons.prems(2) by simp
  next
    case False
    then have "person \<in> set people" using Cons.prems(1) by simp
    then show ?thesis using Cons.IH Cons.prems(2) by (simp split: option.splits)
  qed
qed

lemma addNamedEmails_inbox:
  "list_all inboxBelow100 acc \<Longrightarrow> list_all inboxBelow100 (addNamedEmails contacts people acc)"
  by (induction people arbitrary: acc)
     (simp_all add: namedEmailPath_def inboxBelow100_def split: option.splits)

lemma addInboxes_inbox:
  "list_all inboxBelow100 acc \<Longrightarrow> list_all inboxBelow100 (addInboxes cs acc)"
  by (induction cs arbitrary: acc) (simp_all add: plainPath_def inboxBelow100_def)

lemma addAgencies_inbox:
  "list_all inboxBelow100 acc \<Longrightarrow> list_all inboxBelow100 (addAgencies cs acc)"
  by (induction cs arbitrary: acc) (simp_all add: plainPath_def inboxBelow100_def)

lemma addForms_inbox:
  "list_all inboxBelow100 acc \<Longrightarrow> list_all inboxBelow100 (addForms cs acc)"
  by (induction cs arbitrary: acc) (simp_all add: plainPath_def inboxBelow100_def)

lemma addGenericEmails_inbox:
  "list_all inboxBelow100 acc \<Longrightarrow> list_all inboxBelow100 (addGenericEmails cs acc)"
  by (induction cs arbitrary: acc) (simp_all add: plainPath_def inboxBelow100_def)

lemma candidatePaths_inbox:
  assumes "p \<in> set (candidatePaths contacts people companyName region)"
  shows "inboxBelow100 p"
proof -
  have "list_all inboxBelow100 (addGenericEmails contacts (addForms contacts
          (addAgencies contacts (addInboxes contacts (addNamedEmails contacts people [])))))"
    by (intro addGenericEmails_inbox addForms_inbox addAgencies_inbox addInboxes_inbox
        addNamedEmails_inbox) simp
  moreover have "inboxBelow100 (linkedinPath companyName region)"
    by (simp add: inboxBelow100_def linkedinPath_def)
  ultimately show ?thesis
    using assms by (auto simp: candidatePaths_def list_all_iff)
qed

lemma candidatePaths_named:
  assumes "person \<in> set people" and "find (belongsTo person) contacts = Some c"
  shows "namedEmailPath person c \<in> set (candidatePaths contacts people companyName region)"
proof -
  have "namedEmailPath person c \<in> set (addNamedEmails contacts people [])"
    using assms by (rule addNamedEmails_adds)
  then have "namedEmailPath person c \<in> set (addGenericEmails contacts (addForms contacts
      (addAgencies contacts (addInboxes contacts (addNamedEmails contacts people [])))))"
    by (intro addGenericEmails_keeps addForms_keeps addAgencies_keeps addInboxes_keeps)
  then show ?thesis by (simp add: candidatePaths_def)
qed

lemma sortByScore_set: "set (sortByScore ps) = set ps"
  by (simp add: sortByScore_def)

lemma sortByScore_sorted: "sorted (map (\<lambda>p. - score p) (sortByScore ps))"
  by (simp add: sortByScore_def)

lemma sortByScore_order:
  assumes "i < length (sortByScore ps)" "j < length (sortByScore ps)"
    and "score (sortByScore ps ! j) < score (sortByScore ps ! i)"
  shows "i < j"
proof (rule ccontr)
  assume "\<not> i < j"
  then have "j \<le> i" by simp
  then have "map (\<lambda>p. - score p) (sortByScore ps) ! j \<le> map (\<lambda>p. - score p) (sortByScore ps) ! i"
    using sortByScore_sorted [of ps] assms(1) by (simp add: sorted_iff_nth_mono del: nth_map)
  then show False using assms by simp
qed

lemma janeMatches:
  "name person = ''Jane Doe'' \<Longrightarrow> pathType c = Email \<Longrightarrow> cvalue c = ''jane@company.com''
   \<Longrightarrow> belongsTo person c"
  by (simp add: belongsTo_def emailPrefix_def nameParts_def toLowerCase_def lowerChar_def)

lemma linkedinPath_score: "score (linkedinPath companyName region) = 25"
  by (simp add: linkedinPath_def)

lemmas rank_eval = linkedinPath_score rankedPaths_def candidatePaths_def sortByScore_def janeDoe_def
  contactPage_def createEmailContact_def localPart_def EMAIL_PRIORITY_def
  belongsTo_def emailPrefix_def nameParts_def toLowerCase_def lowerChar_def
  namedEmailPath_def plainPath_def titleOrUndefined_def isPartnershipEmail_def
  isMarketingEmail_def

text \<open>
  The statement C3 as written fails when an earlier stored email also overlaps the
  name: \<open>contacts.find\<close> returns the first match, so \<open>Jane Doe\<close> is paired with
  \<open>j.doe@company.com\<close>, and \<open>jane@company.com\<close> is only ranked as a generic inbox
  (score 30). Both contacts are what \<open>createEmailContact\<close> makes of the addresses.
\<close>

theorem jane_counterexample:
  "name janeDoe = ''Jane Doe''
   \<and> createEmailContact ''jane@company.com'' contactPage
       = \<lparr>pathType = Email, cvalue = ''jane@company.com'', emailType = Some ''general'',
          confidenceScore = 20, sourceUrl = ''https://company.com/contact''\<rparr>
   \<and> rankedPaths [createEmailContact ''j.doe@company.com'' contactPage,
                createEmailContact ''jane@company.com'' contactPage]
     [janeDoe] ''Company'' None
   = [\<lparr>ptype = NamedEmail, pvalue = ''j.doe@company.com'', personName = Some ''Jane Doe'',
       personTitle = Some ''Head of Partnerships'', score = 100,
       pathSourceUrl = Some ''https://company.com/contact''\<rparr>,
      \<lparr>ptype = Inbox, pvalue = ''jane@company.com'', personName = None,
       personTitle = None, score = 30,
       pathSourceUrl = Some ''https://company.com/contact''\<rparr>,
      linkedinPath ''Company'' None]"
  by (simp add: rank_eval)

text \<open>
  C3 (amended). If the stored people contain a person named \<open>Jane Doe\<close> and the
  stored contacts contain the email contact \<open>jane@company.com\<close>, and no contact stored
  before it is an email whose local part overlaps a piece of that person's name, then
  the ranked candidates contain the named-email candidate for \<open>jane@company.com\<close>
  linked to \<open>Jane Doe\<close> with score 100, at a position before every inbox candidate.
\<close>

theorem named_email_first_match:
  assumes "person \<in> set people" and "name person = ''Jane Doe''"
    and "contacts = before @ c # rest"
    and "pathType c = Email" and "cvalue c = ''jane@company.com''"
    and "\<forall>b \<in> set before. \<not> belongsTo person b"
  shows "\<exists>i < length (rankedPaths contacts people companyName region).
           rankedPaths contacts people companyName region ! i
             = \<lparr>ptype = NamedEmail, pvalue = ''jane@company.com'',
                personName = Some ''Jane Doe'',
                personTitle = titleOrUndefined (jobTitle person), score = 100,
                pathSourceUrl = Some (sourceUrl c)\<rparr>
           \<and> (\<forall>j < length (rankedPaths contacts people companyName region).
                 ptype (rankedPaths contacts people companyName region ! j) = Inbox \<longrightarrow> i < j)"
proof -
  let ?r = "rankedPaths contacts people companyName region"
  let ?cands = "candidatePaths contacts people companyName region"
  have m: "belongsTo person c" using assms(2,4,5) by (rule janeMatches)
  have f: "find (belongsTo person) contacts = Some c"
    using assms(6) m unfolding assms(3) by (rule find_first)
  have "namedEmailPath person c \<in> set ?r"
    using candidatePaths_named [OF assms(1) f] by (simp add: rankedPaths_def sortByScore_set)
  then obtain i where i: "i < length ?r" "?r ! i = namedEmailPath person c"
    by (auto simp: in_set_conv_nth)
  have above: "i < j" if j: "j < length ?r" "ptype (?r ! j) = Inbox" for j
  proof -
    have "?r ! j \<in> set ?cands"
      using j(1) nth_mem [of j ?r] by (simp add: rankedPaths_def sortByScore_set)
    then have "score (?r ! j) < 100"
      using candidatePaths_inbox j(2) by (auto simp: inboxBelow100_def)
    then have "score (?r ! j) < score (?r ! i)" using i(2) by (simp add: namedEmailPath_def)
    then show ?thesis using i(1) j(1) sortByScore_order unfolding rankedPaths_def by blast
  qed
  have "?r ! i = \<lparr>ptype = NamedEmail, pvalue = ''jane@company.com'',
                personName = Some ''Jane Doe'',
                personTitle = titleOrUndefined (jobTitle person), score = 100,
                pathSourceUrl = Some (sourceUrl c)\<rparr>"
    using i(2) assms(2,5) by (simp add: namedEmailPath_def)
  then show ?thesis using i(1) above by blast
qed

text \<open>
  The amended statement at a concrete input: a partnerships inbox stored before
  \<open>jane@company.com\<close> does not overlap the name.
\<close>

theorem named_email_first_match_witness:
  "janeDoe \<in> set [janeDoe] \<and> name janeDoe = ''Jane Doe''
   \<and> pathType (createEmailContact ''jane@company.com'' contactPage) = Email
   \<and> cvalue (createEmailContact ''jane@company.com'' contactPage) = ''jane@company.com''
   \<and> \<not> belongsTo janeDoe (createEmailContact ''partnerships@company.com'' contactPage)
   \<and> (\<exists>i < length (rankedPaths [createEmailContact ''partnerships@company.com'' contactPage,
                                 createEmailContact ''jane@company.com'' contactPage]
                      [janeDoe] ''Company'' None).
         rankedPaths [createEmailContact ''partnerships@company.com'' contactPage,
                      createEmailContact ''jane@company.com'' contactPage]
           [janeDoe] ''Company'' None ! i
         = \<lparr>ptype = NamedEmail, pvalue = ''jane@company.com'', personName = Some ''Jane Doe'',
            personTitle = Some ''Head of Partnerships'', score = 100,
            pathSourceUrl = Some ''https://company.com/contact''\<rparr>)"
proof -
  let ?p = "createEmailContact ''partnerships@company.com'' contactPage"
  let ?j = "createEmailContact ''jane@company.com'' contactPage"
  have h1: "janeDoe \<in> set [janeDoe]" by simp
  have h2: "name janeDoe = ''Jane Doe''" by (simp add: janeDoe_def)
  have h3: "[?p, ?j] = [?p] @ ?j # []" by simp
  have h4: "pathType ?j = Email" by (simp add: createEmailContact_def split: prod.splits)
  have h5: "cvalue ?j = ''jane@company.com''" by (simp add: createEmailContact_def split: prod.splits)
  have h6': "\<not> belongsTo janeDoe ?p" by (simp add: rank_eval)
  then have h6: "\<forall>b \<in> set [?p]. \<not> belongsTo janeDoe b" by simp
  have t: "titleOrUndefined (jobTitle janeDoe) = Some ''Head of Partnerships''"
    by (simp add: janeDoe_def titleOrUndefined_def)
  have s: "sourceUrl ?j = ''https://company.com/contact''"
    by (simp add: createEmailContact_def contactPage_def split: prod.splits)
  show ?thesis
    using named_email_first_match [OF h1 h2 h3 h4 h5 h6, of "''Company''" None] h1 h2 h4 h5 h6'
    unfolding t s by blast
qed

text \<open>
  C10. For some input the primary and the backup carry the same value: the stored
  email \<open>jane.partnerships@company.com\<close> overlaps the name of \<open>Jane Doe\<close> and is
  classified \<open>partnerships\<close>, so it is pushed as a named-email candidate (score 100)
  and again as an inbox candidate (score 75), and fills both slots of the selection.
\<close>

theorem same_email_twice:
  "selectBestPaths [createEmailContact ''jane.partnerships@company.com'' contactPage]
     [janeDoe] ''Company'' None
   = Some \<lparr>primary =
             \<lparr>ptype = NamedEmail, pvalue = ''jane.partnerships@company.com'',
              personName = Some ''Jane Doe'', personTitle = Some ''Head of Partnerships'',
              score = 100, pathSourceUrl = Some ''https://company.com/contact''\<rparr>,
           backup =
             Some \<lparr>ptype = Inbox, pvalue = ''jane.partnerships@company.com'',
                   personName = None, personTitle = None, score = 75,
                   pathSourceUrl = Some ''https://company.com/contact''\<rparr>,
           linkedinUrls = manualLinkedinUrls ''Company'' None\<rparr>"
  by (simp add: selectBestPaths_def rank_eval)


subsection \<open>Crawler\<close>

lemma fetchPage_calls: "snd (fetchPage P calls u) = calls @ [u]"
  by (simp add: fetchPage_def)

lemma fetchFound_calls:
  "snd (fetchFound P nb ps (results, calls)) = calls @ map (\<lambda>p. nb @ p) ps"
proof (induction ps arbitrary: results calls)
  case Nil
  then show ?case by simp
next
  case (Cons p ps)
  obtain r c where f: "fetchPage P calls (nb @ p) = (r, c)" by (cases "fetchPage P calls (nb @ p)")
  then have c: "c = calls @ [nb @ p]" using fetchPage_calls [of P calls "nb @ p"] by simp
  show ?case using Cons.IH by (simp add: f c)
qed

lemma crawl_calls:
  "snd (crawlCompanyWebsite P baseUrl)
   = (if success (fst (fetchPage P [] (normalizeBase baseUrl)))
      then normalizeBase baseUrl # map (\<lambda>p. normalizeBase baseUrl @ p)
             (pathsToFetch P (normalizeBase baseUrl) (fst (fetchPage P [] (normalizeBase baseUrl))))
      else [normalizeBase baseUrl])"
proof -
  obtain homepage calls where f: "fetchPage P [] (normalizeBase baseUrl) = (homepage, calls)"
    by (cases "fetchPage P [] (normalizeBase baseUrl)")
  have c: "calls = [normalizeBase baseUrl]"
    using fetchPage_calls [of P "[]" "normalizeBase baseUrl"] f by simp
  show ?thesis by (simp add: crawlCompanyWebsite_def Let_def f c fetchFound_calls)
qed

lemma crawl_cap: "length (snd (crawlCompanyWebsite P baseUrl)) \<le> 11"
  by (simp add: crawl_calls pathsToFetch_def)

lemma setAdd_distinct: "distinct xs \<Longrightarrow> distinct (setAdd xs x)"
  by (simp add: setAdd_def)

lemma addIfRelevant_distinct: "distinct found \<Longrightarrow> distinct (addIfRelevant p rs found)"
  by (induction rs arbitrary: found) (simp_all add: setAdd_distinct)

lemma scanLinks_distinct: "distinct found \<Longrightarrow> distinct (scanLinks P nb ls found)"
  by (induction ls arbitrary: found)
     (simp_all add: Let_def addIfRelevant_distinct split: option.splits)

lemma addCommonPaths_distinct: "distinct found \<Longrightarrow> distinct (addCommonPaths rs found)"
  by (induction rs arbitrary: found) (simp_all add: setAdd_distinct)

lemma pathsToFetch_distinct: "distinct (pathsToFetch P nb homepage)"
  by (simp add: pathsToFetch_def addCommonPaths_distinct scanLinks_distinct)

text \<open>
  C2. When the homepage fetch fails, the crawl returns a collection with exactly one
  entry, the failed homepage result under the key \<open>/\<close>, and the only fetch call of
  the crawl is the one for the homepage.
\<close>

theorem failed_homepage:
  assumes "\<not> success (fst (fetchPage P [] (normalizeBase baseUrl)))"
  shows "crawlCompanyWebsite P baseUrl
         = ([(''/'', fst (fetchPage P [] (normalizeBase baseUrl)))], [normalizeBase baseUrl])"
proof -
  obtain homepage calls where f: "fetchPage P [] (normalizeBase baseUrl) = (homepage, calls)"
    by (cases "fetchPage P [] (normalizeBase baseUrl)")
  have c: "calls = [normalizeBase baseUrl]"
    using fetchPage_calls [of P "[]" "normalizeBase baseUrl"] f by simp
  show ?thesis using assms by (simp add: crawlCompanyWebsite_def Let_def f c)
qed

lemma elemAt_numeral: "elemAt (x # xs) (numeral k) = elemAt xs (pred_numeral k)"
  by (simp add: numeral_eq_Suc)

lemmas crawl_eval = elemAt_numeral crawlCompanyWebsite_def fetchPage_def normalizeBase_def failedResult_def
  quietPlatform_def downSite_def acmeSite_def acmeHome_def pathsToFetch_def RELEVANT_PATHS_def
  normalizeUrl_def setAdd_def toLowerCase_def lowerChar_def hexDigit_def trim_def
  collapseSpaces_def isSpace_def Let_def

text \<open>The statement at a site whose server answers 503.\<close>

theorem failed_homepage_witness:
  "\<not> success (fst (fetchPage downSite [] (normalizeBase ''acme.test/'')))
   \<and> crawlCompanyWebsite downSite ''acme.test/''
       = ([(''/'', \<lparr>url = ''https://acme.test'', html = [], ctext = [], links = [],
                    success = False, error = Some ''HTTP 503''\<rparr>)],
          [''https://acme.test''])"
proof -
  have f: "fetchPage downSite [] ''https://acme.test''
           = (\<lparr>url = ''https://acme.test'', html = [], ctext = [], links = [],
                success = False, error = Some ''HTTP 503''\<rparr>, [''https://acme.test''])"
    by (simp add: crawl_eval)
  have n: "normalizeBase ''acme.test/'' = ''https://acme.test''"
    by (simp add: normalizeBase_def)
  have h: "\<not> success (fst (fetchPage downSite [] (normalizeBase ''acme.test/'')))"
    by (simp add: f n)
  show ?thesis using failed_homepage [OF h] h unfolding n by (simp add: f)
qed

text \<open>
  C7. A crawl makes at most ten fetch calls after the homepage (\<open>crawl_cap\<close>) and the
  fetched paths are pairwise distinct (\<open>pathsToFetch_distinct\<close>), but a path already
  fetched is not skipped: the common-path loop leaves \<open>/\<close> out, the link loop does
  not. On a homepage that links to \<open>/\<close> the crawl fetches the homepage a second
  time, as the first of its ten paths, and stores the second result over the first.
\<close>

theorem homepage_fetched_twice:
  "crawlCompanyWebsite acmeSite ''acme.test''
   = ([(''/'', \<lparr>url = ''https://acme.test/'', html = acmeHome, ctext = ''Acme Welcome'',
                links = [''/''], success = True, error = None\<rparr>)],
      [''https://acme.test'', ''https://acme.test/'', ''https://acme.test/about'',
       ''https://acme.test/about-us'', ''https://acme.test/brand'',
       ''https://acme.test/community'', ''https://acme.test/sustainability'',
       ''https://acme.test/partnerships'', ''https://acme.test/partners'',
       ''https://acme.test/sponsorship'', ''https://acme.test/sponsorships''])"
  by (simp add: crawl_eval)

lemma parseable_base_sends_request:
  assumes "urlParse P (normalizeBase baseUrl) \<noteq> None"
  shows "requestsSent P (snd (crawlCompanyWebsite P baseUrl)) \<noteq> []"
  using assms by (simp add: crawl_calls requestsSent_def)



subsection \<open>Email classification\<close>

















subsection \<open>Deduplication and order of the contacts\<close>

lemma seenInv_empty: "seenInv key ([], [])"
  by (simp add: seenInv_def)

lemma addUnseen_inv: "seenInv cvalue st \<Longrightarrow> seenInv cvalue (addUnseen cs st)"
proof (induction cs arbitrary: st)
  case Nil
  then show ?case by simp
next
  case (Cons c cs)
  obtain allContacts seenValues where st: "st = (allContacts, seenValues)" by (cases st)
  show ?case
  proof (cases "cvalue c \<in> set seenValues")
    case True
    then show ?thesis using Cons st by simp
  next
    case False
    have "seenInv cvalue (allContacts @ [c], setAdd seenValues (cvalue c))"
      using Cons.prems False unfolding st seenInv_def setAdd_def by auto
    then show ?thesis using Cons.IH False st by simp
  qed
qed

lemma contactsOfPages_inv:
  "seenInv cvalue st \<Longrightarrow> seenInv cvalue (contactsOfPages P baseUrl pages st)"
proof (induction pages arbitrary: st)
  case Nil
  then show ?case by simp
next
  case (Cons pg pages)
  obtain path result where pg: "pg = (path, result)" by (cases pg)
  show ?case
    unfolding pg using Cons.prems
    by (auto simp: Let_def intro!: Cons.IH addUnseen_inv)
qed

lemma sortByConfidence_sorted:
  "sorted_wrt (\<lambda>a b. confidenceScore b \<le> confidenceScore a) (sortByConfidence cs)"
proof -
  have "sorted (map (\<lambda>c. - confidenceScore c) (sortByConfidence cs))"
    by (simp add: sortByConfidence_def)
  then show ?thesis by (simp add: sorted_map)
qed

lemma sortByConfidence_distinct:
  "distinct (map cvalue cs) \<Longrightarrow> distinct (map cvalue (sortByConfidence cs))"
  by (simp add: distinct_map sortByConfidence_def)

text \<open>
  C5. For every page collection and base URL the contacts returned by
  \<open>extractContacts\<close> are in non-increasing order of confidence score, and no two of
  them have the same value.
\<close>

theorem extractContacts_sorted_distinct:
  "sorted_wrt (\<lambda>a b. confidenceScore b \<le> confidenceScore a) (extractContacts P crawlResults baseUrl)
   \<and> distinct (map cvalue (extractContacts P crawlResults baseUrl))"
proof -
  have "seenInv cvalue (contactsOfPages P baseUrl crawlResults ([], []))"
    by (rule contactsOfPages_inv) (rule seenInv_empty)
  then have "distinct (map cvalue (fst (contactsOfPages P baseUrl crawlResults ([], []))))"
    by (simp add: seenInv_def)
  then show ?thesis
    by (simp add: extractContacts_def sortByConfidence_sorted sortByConfidence_distinct)
qed

subsection \<open>Signals\<close>

lemma addNewSignals_inv: "seenInv stype st \<Longrightarrow> seenInv stype (addNewSignals path sigs st)"
proof (induction sigs arbitrary: st)
  case Nil
  then show ?case by simp
next
  case (Cons sg sigs)
  obtain allSignals seenTypes where st: "st = (allSignals, seenTypes)" by (cases st)
  show ?case
  proof (cases "stype sg \<in> set seenTypes")
    case True
    then show ?thesis using Cons st by simp
  next
    case False
    have "seenInv stype (allSignals @ [sg\<lparr>stext := ''['' @ path @ ''] '' @ stext sg\<rparr>],
            setAdd seenTypes (stype sg))"
      using Cons.prems False unfolding st seenInv_def setAdd_def by auto
    then show ?thesis using Cons.IH False st by simp
  qed
qed

lemma signalsOfPages_inv: "seenInv stype st \<Longrightarrow> seenInv stype (signalsOfPages P pages st)"
proof (induction pages arbitrary: st)
  case Nil
  then show ?case by simp
next
  case (Cons pg pages)
  obtain path result where pg: "pg = (path, result)" by (cases pg)
  show ?case
    unfolding pg using Cons.prems
    by (auto intro!: Cons.IH addNewSignals_inv)
qed

text \<open>
  C6. For every page collection no two signals returned by \<open>analyzePageContent\<close>
  have the same category.
\<close>

theorem analyzePageContent_distinct:
  "distinct (map stype (analyzePageContent P crawlResults))"
proof -
  have "seenInv stype (signalsOfPages P crawlResults ([], []))"
    by (rule signalsOfPages_inv) (rule seenInv_empty)
  then show ?thesis by (simp add: analyzePageContent_def seenInv_def)
qed


subsection \<open>People\<close>

lemma addNewPeople_inv: "seenInv lowerName st \<Longrightarrow> seenInv lowerName (addNewPeople ps st)"
proof (induction ps arbitrary: st)
  case Nil
  then show ?case by simp
next
  case (Cons p ps)
  obtain allPeople seenNames where st: "st = (allPeople, seenNames)" by (cases st)
  show ?case
  proof (cases "toLowerCase (name p) \<in> set seenNames")
    case True
    then show ?thesis using Cons st by simp
  next
    case False
    have "seenInv lowerName (allPeople @ [p], setAdd seenNames (toLowerCase (name p)))"
      using Cons.prems False unfolding st seenInv_def setAdd_def lowerName_def by auto
    then show ?thesis using Cons.IH False st by simp
  qed
qed

lemma peopleOfPages_inv:
  "seenInv lowerName st \<Longrightarrow> seenInv lowerName (peopleOfPages P companyName pages st)"
proof (induction pages arbitrary: st)
  case Nil
  then show ?case by simp
next
  case (Cons pg pages)
  obtain path result where pg: "pg = (path, result)" by (cases pg)
  show ?case
    unfolding pg using Cons.prems
    by (auto simp: Let_def intro!: Cons.IH addNewPeople_inv)
qed

lemma extractPeople_distinct: "distinct (map lowerName (extractPeople P crawlResults companyName))"
proof -
  have "seenInv lowerName (peopleOfPages P companyName crawlResults ([], []))"
    by (rule peopleOfPages_inv) (simp add: seenInv_def)
  then show ?thesis by (simp add: extractPeople_def seenInv_def)
qed

lemma furtherWords_numeral:
  "furtherWords (numeral k) s = furtherWords (Suc (pred_numeral k)) s"
  by (simp add: numeral_eq_Suc)

lemmas people_eval = furtherWords_numeral peopleToSave_def extractPeople_def extractPeopleFromText_def
  extractPeopleFromWikipedia_def personOfWikiLink_def janeSite_def janePage_def janeText_def
  quietPlatform_def isPersonName_def capitalisedWord_def isUpper_def isLower_def isSpace_def
  trim_def trimmedTitle_def setAdd_def toLowerCase_def lowerChar_def Let_def

text \<open>
  C9. Within \<open>extractPeople\<close> no two people share a lower-cased name
  (\<open>extractPeople_distinct\<close>), but the list that is saved is that list followed by the
  result of the biography pass, with no check between the two: on a page that names
  Jane Doe, for a company whose article lists Jane Doe, the saved list holds Jane Doe
  twice.
\<close>

theorem duplicate_person_saved:
  "map name (extractPeople janeSite janePage ''Acme'') = [''Jane Doe'']
   \<and> map name (peopleToSave janeSite janePage ''Acme'' (Some ''https://en.wikipedia.org/wiki/Acme''))
       = [''Jane Doe'', ''Jane Doe'']
   \<and> map personSourceUrl
        (peopleToSave janeSite janePage ''Acme'' (Some ''https://en.wikipedia.org/wiki/Acme''))
       = [''https://acme.test'', ''https://en.wikipedia.org/wiki/Acme'']"
  by (simp add: people_eval)


end
